theory Spec2Isabelle
  imports Main "HOL-Library.Sublist" "HOL-Library.Multiset"
begin

section \<open>The DemoApp backend (backend/main.py)\<close>

text \<open>
  The backend is one Python module: nine FastAPI route handlers over an SQLite file with
  three tables, and two helpers that issue and verify a JSON Web Token. Each handler opens
  a connection, runs one statement (signup: two), and maps any exception to an HTTP error.

  What the module takes from outside is made explicit:
  \<^item> the database file is a value of type \<open>store\<close>, passed in and returned;
  \<^item> every reading of the clock is an argument of the handler that reads it;
  \<^item> the signing secret, the hash function SHA-256 and the way the \<open>jwt\<close> library
    writes the first two segments of a token are the fields of an environment record;
    the hash and the serialisation are kept abstract (any functions), the HMAC
    construction around them is written out;
  \<^item> what SQLite and its Python binding do with a statement (integer range of a bound
    parameter, the \<open>UNIQUE\<close> constraint, rowid assignment, \<open>LIKE\<close>, \<open>ORDER BY\<close>) is
    written out as functions of this theory.

  A Python \<open>str\<close> is a list of characters, one \<open>char\<close> for each code point (so the
  code points below 256 are the ones the model has); Python's \<open>int\<close> is \<open>int\<close>.
  The model starts at the handlers, each called with arguments of the types it declares:
  how the framework loads the module, validates a request and finds its route is not
  part of it. Storage faults of the environment (no file permission, a full disk, a
  locked or damaged file) are outside the model as well: the store it describes is the
  one \<open>init_db\<close> created.
\<close>

subsection \<open>Tables\<close>

text \<open>
  \<open>datetime.now()\<close> is stored through the binding's default adapter as ISO text
  (\<open>YYYY-MM-DD HH:MM:SS[.ffffff]\<close>), which SQLite compares bytewise; on such texts that
  is the order of the instants, so a reading is modelled by its number of microseconds.
\<close>

type_synonym timestamp = nat

record users_row =
  users_id :: int
  users_email :: string
  users_name :: string
  users_password :: string
  users_created_at :: timestamp

record messages_row =
  messages_id :: int
  messages_user_id :: int
  messages_message :: string
  messages_response :: string
  messages_created_at :: timestamp

record documents_row =
  documents_id :: int
  documents_user_id :: int
  documents_filename :: string
  documents_content :: string
  documents_created_at :: timestamp

text \<open>
  A table is the list of its rows in rowid order, the order in which a \<open>SELECT\<close> without
  \<open>ORDER BY\<close> walks it. The application never supplies a rowid and never deletes a row,
  so in its tables this is the order of insertion.
\<close>

record store =
  users :: "users_row list"
  messages :: "messages_row list"
  documents :: "documents_row list"

text \<open>
  \<open>init_db\<close>: when the file does not exist (\<open>None\<close>) the three empty tables are
  created; an existing file is left as it is.
\<close>

fun init_db :: "store option \<Rightarrow> store" where
  "init_db None = \<lparr>users = [], messages = [], documents = []\<rparr>"
| "init_db (Some s) = s"

subsection \<open>What SQLite does with the statements\<close>

text \<open>
  An \<open>INTEGER PRIMARY KEY\<close> column left out of an \<open>INSERT\<close> gets 1 in an empty table and
  otherwise the largest rowid of the table plus one, as long as that largest rowid is
  below \<open>2^63 - 1\<close>. Once the largest possible rowid is in use, SQLite draws positive
  rowids at random until it finds one that is not in use (and gives up with an error
  when it finds none, which takes a table with almost every positive rowid in use and is
  not considered here). The draw is not a function of the table: the model takes some
  unused positive rowid (\<open>random_rowid\<close>), about which nothing but that is known, and
  no example evaluates it. The model keeps the new row at the end of the list like
  every other, where a walk in rowid order has it elsewhere; what the theory says about
  the id and the place of a new row is therefore stated for tables whose rowids ascend
  and are below the largest one (\<open>rowids_ok\<close>).
\<close>

definition random_rowid :: "int list \<Rightarrow> int" where
  "random_rowid ids = (SOME r. 1 \<le> r \<and> r < 2 ^ 63 \<and> r \<notin> set ids)"

fun next_rowid :: "int list \<Rightarrow> int" where
  "next_rowid [] = 1"
| "next_rowid (i # ids) =
     (let largest = fold max ids i
      in if largest < 2 ^ 63 - 1 then largest + 1 else random_rowid (i # ids))"

definition rowids_ok :: "int list \<Rightarrow> bool" where
  "rowids_ok ids = (sorted_wrt (<) ids \<and> list_all (\<lambda>i. i < 2 ^ 63 - 1) ids)"

text \<open>
  The binding raises \<open>OverflowError\<close> for a Python integer that is not a signed 64-bit
  value, before the statement runs.
\<close>

definition sqlite_int_ok :: "int \<Rightarrow> bool" where
  "sqlite_int_ok i = (- (2 ^ 63) \<le> i \<and> i < 2 ^ 63)"

definition overflow_detail :: string where
  "overflow_detail = ''Python int too large to convert to SQLite INTEGER''"

text \<open>
  \<open>LIKE\<close> without \<open>ESCAPE\<close>, with SQLite's default \<open>case_sensitive_like = OFF\<close>:
  \<open>%\<close> stands for any run of characters, \<open>_\<close> for any one character, and every other
  character of the pattern for itself, where the ASCII letters match in either case.
  Both operands are read up to their first NUL character. The first argument is the
  pattern.
\<close>

definition sqlite3UpperToLower :: "(char \<times> char) list" where
  "sqlite3UpperToLower = zip ''ABCDEFGHIJKLMNOPQRSTUVWXYZ'' ''abcdefghijklmnopqrstuvwxyz''"

definition sqlite3Tolower :: "char \<Rightarrow> char" where
  "sqlite3Tolower c = (case map_of sqlite3UpperToLower c of Some l \<Rightarrow> l | None \<Rightarrow> c)"

fun patternCompare :: "string \<Rightarrow> string \<Rightarrow> bool" where
  "patternCompare [] s = (s = [])"
| "patternCompare (p # ps) [] = (p = CHR ''%'' \<and> patternCompare ps [])"
| "patternCompare (p # ps) (c # cs) =
     (if p = CHR ''%'' then patternCompare ps (c # cs) \<or> patternCompare (p # ps) cs
      else (p = CHR ''_'' \<or> sqlite3Tolower p = sqlite3Tolower c) \<and> patternCompare ps cs)"

definition c_str :: "string \<Rightarrow> string" where
  "c_str s = takeWhile (\<lambda>c. c \<noteq> CHR 0x00) s"

definition sql_like :: "string \<Rightarrow> string \<Rightarrow> bool" where
  "sql_like pattern text = patternCompare (c_str pattern) (c_str text)"

text \<open>
  The \<open>LIKE\<close> function refuses a pattern of more than 50000 bytes of UTF-8
  (\<open>SQLITE_MAX_LIKE_PATTERN_LENGTH\<close>) with an error; a code point below 128 is one byte,
  the others of the model are two.
\<close>

definition utf8_bytes :: "string \<Rightarrow> nat" where
  "utf8_bytes s = sum_list (map (\<lambda>c. if (of_char c :: nat) < 128 then 1 else 2) s)"

definition SQLITE_MAX_LIKE_PATTERN_LENGTH :: nat where
  "SQLITE_MAX_LIKE_PATTERN_LENGTH = 50000"

text \<open>
  \<open>ORDER BY created_at DESC\<close>: the rows by descending key; rows with equal keys stay in
  rowid order (SQLite's sorter is stable).
\<close>

definition order_by_desc :: "('a \<Rightarrow> timestamp) \<Rightarrow> 'a list \<Rightarrow> 'a list" where
  "order_by_desc key rows = rev (sort_key key (rev rows))"

subsection \<open>Errors and responses\<close>

datatype http_error = HTTPException (status_code: nat) (detail: string)

record user_info =
  info_id :: int
  info_email :: string
  info_name :: string

record message_view =
  view_message :: string
  view_response :: string
  view_created_at :: timestamp

record document_view =
  view_id :: int
  view_filename :: string
  view_doc_created_at :: timestamp

record search_hit =
  hit_filename :: string
  hit_excerpt :: string

subsection \<open>Tokens\<close>

text \<open>
  The payload of a token: the three members \<open>create_token\<close> writes. \<open>exp\<close> is in
  seconds, as the library encodes it (the clock \<open>datetime.utcnow()\<close> is read in
  seconds), and a payload can be without it: \<open>jwt.decode\<close> checks the expiry only of a
  token that carries one. (A payload can have further members, which the model leaves
  out: \<open>jwt.decode\<close> checks \<open>nbf\<close>, \<open>iat\<close> and \<open>aud\<close> when they are there and returns
  every other member as it is.)
\<close>

record payload =
  claim_email :: string
  claim_user_id :: int
  claim_exp :: "nat option"

text \<open>
  A token is a string; what \<open>jwt.decode\<close> sees in it is either three well-formed
  segments (the header's algorithm, the payload and the signature) or nothing it can
  parse. The signature is computed over the first two segments, here the pair of the
  algorithm and the payload.
\<close>

datatype token =
  JWT (jwt_alg: string) (jwt_payload: payload) (jwt_signature: string)
| Malformed string

record env =
  JWT_SECRET :: string
  sha256 :: "string \<Rightarrow> string"
  segments :: "string \<times> payload \<Rightarrow> string"

text \<open>
  HS256 is HMAC (RFC 2104) with SHA-256 and its block of 64 bytes, as Python's \<open>hmac\<close>
  computes it for the library: the key is the UTF-8 encoding of the secret; a key longer
  than a block is replaced by its hash; the key is then filled up with zero bytes to a
  block, and the MAC is \<open>H((k0 xor opad) || H((k0 xor ipad) || message))\<close>.
\<close>

unbundle bit_operations_syntax

definition utf8 :: "string \<Rightarrow> string" where
  "utf8 s =
     concat (map (\<lambda>c. let n = (of_char c :: nat)
                      in if n < 128 then [c]
                         else [char_of (192 + n div 64), char_of (128 + n mod 64)]) s)"

definition xor_byte :: "nat \<Rightarrow> char \<Rightarrow> char" where
  "xor_byte n c = char_of ((of_char c :: nat) XOR n)"

definition hmac_key :: "(string \<Rightarrow> string) \<Rightarrow> string \<Rightarrow> string" where
  "hmac_key H key =
     (let k = (if length key > 64 then H key else key)
      in k @ replicate (64 - length k) (CHR 0x00))"

definition hmac :: "(string \<Rightarrow> string) \<Rightarrow> string \<Rightarrow> string \<Rightarrow> string" where
  "hmac H key msg =
     (let k0 = hmac_key H key
      in H (map (xor_byte 0x5c) k0 @ H (map (xor_byte 0x36) k0 @ msg)))"

definition hmac_sha256 :: "env \<Rightarrow> string \<Rightarrow> string \<times> payload \<Rightarrow> string" where
  "hmac_sha256 e secret m = hmac (sha256 e) (utf8 secret) (segments e m)"

definition seven_days :: nat where
  "seven_days = 7 * 24 * 3600"

definition create_token :: "env \<Rightarrow> nat \<Rightarrow> string \<Rightarrow> int \<Rightarrow> token" where
  "create_token e utcnow email user_id =
     (let p = \<lparr>claim_email = email, claim_user_id = user_id,
               claim_exp = Some (utcnow + seven_days)\<rparr>
      in JWT ''HS256'' p (hmac_sha256 e (JWT_SECRET e) (''HS256'', p)))"


subsection \<open>Requests and responses of the routes\<close>

record SignupRequest =
  signup_name :: string
  signup_email :: string
  signup_password :: string

record LoginRequest =
  login_email :: string
  login_password :: string

record ChatMessage =
  chat_message :: string
  chat_user_id :: int

record auth_response =
  access_token :: token
  token_type :: string
  user :: user_info

record chat_response =
  reply_message :: string
  reply_response :: string
  reply_timestamp :: timestamp

record search_response =
  resp_query :: string
  resp_results :: "search_hit list"

subsection \<open>The route handlers\<close>

text \<open>
  A handler returns \<open>Inr\<close> of its JSON body (status 200) or \<open>Inl\<close> of the
  \<open>HTTPException\<close> it raises. A handler that writes also returns the store.
\<close>

definition root :: "string \<times> string" where
  "root = (''DemoApp API is running'', ''ok'')"

definition health :: "timestamp \<Rightarrow> string \<times> timestamp" where
  "health now = (''healthy'', now)"

text \<open>
  \<open>signup\<close>: the \<open>INSERT\<close> fails on the \<open>UNIQUE\<close> column \<open>email\<close> (compared bytewise)
  with \<open>IntegrityError\<close>, which becomes the 400. Otherwise the row is committed, and the
  id is read back with \<open>SELECT id ... WHERE email = ?\<close>; \<open>fetchone()[0]\<close> on no row would
  be a \<open>TypeError\<close>, hence a 500 after the commit.
\<close>

definition none_detail :: string where
  "none_detail = CHR 0x27 # ''NoneType'' @ CHR 0x27 # '' object is not subscriptable''"

definition signup ::
  "env \<Rightarrow> timestamp \<Rightarrow> nat \<Rightarrow> SignupRequest \<Rightarrow> store \<Rightarrow> (http_error + auth_response) \<times> store"
where
  "signup e now utcnow request s =
     (if signup_email request \<in> set (map users_email (users s))
      then (Inl (HTTPException 400 ''Email already exists''), s)
      else
        let s' = s\<lparr>users := users s @
                   [\<lparr>users_id = next_rowid (map users_id (users s)),
                     users_email = signup_email request,
                     users_name = signup_name request,
                     users_password = signup_password request,
                     users_created_at = now\<rparr>]\<rparr>
        in case find (\<lambda>u. users_email u = signup_email request) (users s') of
             None \<Rightarrow> (Inl (HTTPException 500 none_detail), s')
           | Some u \<Rightarrow>
               (Inr \<lparr>access_token = create_token e utcnow (signup_email request) (users_id u),
                     token_type = ''bearer'',
                     user = \<lparr>info_id = users_id u, info_email = signup_email request,
                             info_name = signup_name request\<rparr>\<rparr>, s'))"

text \<open>
  \<open>login\<close>: \<open>fetchone()\<close> is the first row with the email; \<open>not user or user[2] !=
  request.password\<close> raises the 401, which the handler re-raises as it is.
\<close>

definition login :: "env \<Rightarrow> nat \<Rightarrow> LoginRequest \<Rightarrow> store \<Rightarrow> http_error + auth_response" where
  "login e utcnow request s =
     (case find (\<lambda>u. users_email u = login_email request) (users s) of
        None \<Rightarrow> Inl (HTTPException 401 ''Invalid email or password'')
      | Some u \<Rightarrow>
          if users_password u \<noteq> login_password request
          then Inl (HTTPException 401 ''Invalid email or password'')
          else Inr \<lparr>access_token = create_token e utcnow (login_email request) (users_id u),
                    token_type = ''bearer'',
                    user = \<lparr>info_id = users_id u, info_email = login_email request,
                            info_name = users_name u\<rparr>\<rparr>)"

text \<open>
  \<open>chat\<close> reads the clock twice: for the row and for the response.
\<close>

definition chat ::
  "timestamp \<Rightarrow> timestamp \<Rightarrow> ChatMessage \<Rightarrow> store \<Rightarrow> (http_error + chat_response) \<times> store"
where
  "chat now now' message s =
     (if \<not> sqlite_int_ok (chat_user_id message)
      then (Inl (HTTPException 500 overflow_detail), s)
      else
        let response_text = ''Response to: '' @ chat_message message in
        (Inr \<lparr>reply_message = chat_message message, reply_response = response_text,
              reply_timestamp = now'\<rparr>,
         s\<lparr>messages := messages s @
             [\<lparr>messages_id = next_rowid (map messages_id (messages s)),
               messages_user_id = chat_user_id message,
               messages_message = chat_message message,
               messages_response = response_text,
               messages_created_at = now\<rparr>]\<rparr>))"

definition get_messages :: "int \<Rightarrow> store \<Rightarrow> http_error + message_view list" where
  "get_messages user_id s =
     (if \<not> sqlite_int_ok user_id then Inl (HTTPException 500 overflow_detail)
      else Inr (map (\<lambda>msg. \<lparr>view_message = messages_message msg,
                              view_response = messages_response msg,
                              view_created_at = messages_created_at msg\<rparr>)
                 (order_by_desc messages_created_at
                    (filter (\<lambda>m. messages_user_id m = user_id) (messages s)))))"

definition upload_document ::
  "timestamp \<Rightarrow> int \<Rightarrow> string \<Rightarrow> string \<Rightarrow> store \<Rightarrow> (http_error + string \<times> string) \<times> store"
where
  "upload_document now user_id filename content s =
     (if \<not> sqlite_int_ok user_id then (Inl (HTTPException 500 overflow_detail), s)
      else
        (Inr (''success'', filename),
         s\<lparr>documents := documents s @
             [\<lparr>documents_id = next_rowid (map documents_id (documents s)),
               documents_user_id = user_id,
               documents_filename = filename,
               documents_content = content,
               documents_created_at = now\<rparr>]\<rparr>))"

definition get_documents :: "int \<Rightarrow> store \<Rightarrow> http_error + document_view list" where
  "get_documents user_id s =
     (if \<not> sqlite_int_ok user_id then Inl (HTTPException 500 overflow_detail)
      else Inr (map (\<lambda>doc. \<lparr>view_id = documents_id doc,
                              view_filename = documents_filename doc,
                              view_doc_created_at = documents_created_at doc\<rparr>)
                 (filter (\<lambda>d. documents_user_id d = user_id) (documents s))))"

text \<open>
  \<open>search\<close>: \<open>WHERE user_id = ? AND content LIKE ?\<close> with the pattern \<open>%query%\<close>. The
  \<open>LIKE\<close> function runs on the rows of the user only, so its refusal of a long pattern
  needs one such row. The excerpt is \<open>r[1][:200] if len(r[1]) > 200 else r[1]\<close>.
\<close>

definition excerpt :: "string \<Rightarrow> string" where
  "excerpt content = (if length content > 200 then take 200 content else content)"

definition search :: "int \<Rightarrow> string \<Rightarrow> store \<Rightarrow> http_error + search_response" where
  "search user_id query s =
     (if \<not> sqlite_int_ok user_id then Inl (HTTPException 500 overflow_detail)
      else
        let pattern = ''%'' @ query @ ''%'';
            rows = filter (\<lambda>d. documents_user_id d = user_id) (documents s)
        in if rows \<noteq> [] \<and> utf8_bytes pattern > SQLITE_MAX_LIKE_PATTERN_LENGTH
           then Inl (HTTPException 500 ''LIKE or GLOB pattern too complex'')
           else Inr \<lparr>resp_query = query,
                     resp_results =
                       map (\<lambda>r. \<lparr>hit_filename = documents_filename r,
                                  hit_excerpt = excerpt (documents_content r)\<rparr>)
                         (filter (\<lambda>d. sql_like pattern (documents_content d)) rows)\<rparr>)"

subsection \<open>The application\<close>

text \<open>
  One request is a route with the parameters the route declares, together with what the
  caller sends besides them: the bearer token of an \<open>Authorization\<close> header, if any.
\<close>

datatype route =
  GetRoot
| GetHealth
| PostSignup SignupRequest
| PostLogin LoginRequest
| PostChat ChatMessage
| GetMessages int
| PostUpload int string string
| GetDocuments int
| PostSearch int string

datatype body =
  RootBody "string \<times> string"
| HealthBody "string \<times> timestamp"
| AuthBody auth_response
| ChatBody chat_response
| MessagesBody "message_view list"
| UploadBody "string \<times> string"
| DocumentsBody "document_view list"
| SearchBody search_response

record http_request =
  authorization :: "token option"
  target :: route

text \<open>The readings a handler may take: \<open>datetime.now()\<close> twice, \<open>datetime.utcnow()\<close> once.\<close>

record clock =
  clock_now :: timestamp
  clock_now' :: timestamp
  clock_utcnow :: nat

text \<open>
  The routes. Each is bound to its handler, and the framework calls the handler with the
  parameters its signature declares and nothing else of the request: none of the nine
  declares the \<open>Authorization\<close> header or a dependency on \<open>verify_token\<close>.
\<close>

definition app :: "env \<Rightarrow> clock \<Rightarrow> http_request \<Rightarrow> store \<Rightarrow> (http_error + body) \<times> store" where
  "app e k request s =
     (case target request of
        GetRoot \<Rightarrow> (Inr (RootBody root), s)
      | GetHealth \<Rightarrow> (Inr (HealthBody (health (clock_now k))), s)
      | PostSignup r \<Rightarrow>
          (let (b, s') = signup e (clock_now k) (clock_utcnow k) r s in (map_sum id AuthBody b, s'))
      | PostLogin r \<Rightarrow> (map_sum id AuthBody (login e (clock_utcnow k) r s), s)
      | PostChat message \<Rightarrow>
          (let (b, s') = chat (clock_now k) (clock_now' k) message s in (map_sum id ChatBody b, s'))
      | GetMessages user_id \<Rightarrow> (map_sum id MessagesBody (get_messages user_id s), s)
      | PostUpload user_id filename content \<Rightarrow>
          (let (b, s') = upload_document (clock_now k) user_id filename content s
           in (map_sum id UploadBody b, s'))
      | GetDocuments user_id \<Rightarrow> (map_sum id DocumentsBody (get_documents user_id s), s)
      | PostSearch user_id query \<Rightarrow> (map_sum id SearchBody (search user_id query s), s))"

text \<open>A run of the application: the requests in order, each with its clock readings.\<close>

fun run :: "env \<Rightarrow> (clock \<times> http_request) list \<Rightarrow> store \<Rightarrow> (http_error + body) list \<times> store" where
  "run e [] s = ([], s)"
| "run e ((k, request) # rest) s =
     (let (r, s') = app e k request s; (rs, s'') = run e rest s' in (r # rs, s''))"



subsection \<open>What the store keeps true\<close>

text \<open>
  The \<open>UNIQUE\<close> constraint keeps the emails of the users distinct, and the binding lets
  only 64-bit user ids into the other two tables.
\<close>

definition store_inv :: "store \<Rightarrow> bool" where
  "store_inv s =
     (distinct (map users_email (users s))
      \<and> list_all (\<lambda>m. sqlite_int_ok (messages_user_id m)) (messages s)
      \<and> list_all (\<lambda>d. sqlite_int_ok (documents_user_id d)) (documents s))"

text \<open>
  Rowids that ascend and lie between 1 and a bound: what the tables of a new file hold
  after at most that many requests.
\<close>

definition rowids_upto :: "nat \<Rightarrow> int list \<Rightarrow> bool" where
  "rowids_upto n ids = (sorted_wrt (<) ids \<and> list_all (\<lambda>i. 1 \<le> i \<and> i \<le> int n) ids)"

definition store_rowids :: "nat \<Rightarrow> store \<Rightarrow> bool" where
  "store_rowids n s =
     (rowids_upto n (map users_id (users s))
      \<and> rowids_upto n (map messages_id (messages s))
      \<and> rowids_upto n (map documents_id (documents s)))"

subsection \<open>A sample environment and store\<close>


definition example_store :: store where
  "example_store =
     \<lparr>users = [\<lparr>users_id = 1, users_email = ''alice@x.com'', users_name = ''Alice'',
                users_password = ''p1'', users_created_at = 10\<rparr>],
      messages = [],
      documents =
        [\<lparr>documents_id = 1, documents_user_id = 1, documents_filename = ''a.txt'',
          documents_content = ''Hello world'', documents_created_at = 20\<rparr>,
         \<lparr>documents_id = 2, documents_user_id = 1, documents_filename = ''b.txt'',
          documents_content = ''HELLO'', documents_created_at = 30\<rparr>]\<rparr>"

section \<open>Properties\<close>

subsection \<open>The SQLite functions\<close>

lemma patternCompare_percent: "patternCompare ''%'' t"
  by (induction t) simp_all

lemma patternCompare_percent2: "patternCompare ''%%'' t"
  by (induction t) (simp_all add: patternCompare_percent)

text \<open>
  With no wildcard in \<open>q\<close>, the pattern \<open>q%\<close> asks for \<open>q\<close> at the start of the text and
  \<open>%q%\<close> for \<open>q\<close> anywhere in it, both after lowering the ASCII letters.
\<close>

lemma patternCompare_prefix:
  assumes "CHR ''%'' \<notin> set q" and "CHR ''_'' \<notin> set q"
  shows "patternCompare (q @ ''%'') t
           = prefix (map sqlite3Tolower q) (map sqlite3Tolower t)"
  using assms
proof (induction q arbitrary: t)
  case Nil
  then show ?case by (simp add: patternCompare_percent)
next
  case (Cons a q)
  then show ?case by (cases t) auto
qed

lemma patternCompare_sublist:
  assumes "CHR ''%'' \<notin> set q" and "CHR ''_'' \<notin> set q"
  shows "patternCompare (''%'' @ q @ ''%'') t
           = sublist (map sqlite3Tolower q) (map sqlite3Tolower t)"
proof (induction t)
  case Nil
  from patternCompare_prefix [OF assms, of "[]"] show ?case by simp
next
  case (Cons c cs)
  from patternCompare_prefix [OF assms, of "c # cs"] Cons show ?case
    by (simp add: sublist_Cons_right)
qed

lemma c_str_no_nul: "CHR 0x00 \<notin> set s \<Longrightarrow> c_str s = s"
  by (auto simp: c_str_def takeWhile_eq_all_conv)

lemma sql_like_plain:
  assumes "CHR ''%'' \<notin> set q" and "CHR ''_'' \<notin> set q" and "CHR 0x00 \<notin> set q"
  shows "sql_like (''%'' @ q @ ''%'') content
           = sublist (map sqlite3Tolower q) (map sqlite3Tolower (c_str content))"
proof -
  from assms(3) have "c_str (''%'' @ q @ ''%'') = ''%'' @ q @ ''%''"
    by (intro c_str_no_nul) simp
  with patternCompare_sublist [OF assms(1,2)] show ?thesis
    by (simp add: sql_like_def)
qed

text \<open>
  In a table whose rowids ascend below the largest possible one, the next rowid is the
  last one plus one, and the table with the new row at its end is in rowid order again.
\<close>

lemma fold_max_ascending:
  "sorted_wrt (<) (i # ids) \<Longrightarrow> fold max ids i = last (i # ids)" for i :: int
proof (induction ids arbitrary: i)
  case Nil
  then show ?case by simp
next
  case (Cons j rest)
  from Cons.prems have "max j i = j" and "sorted_wrt (<) (j # rest)" by simp_all
  with Cons.IH [of j] show ?case by simp
qed

lemma ascending_le_last:
  "sorted_wrt (<) ids \<Longrightarrow> j \<in> set ids \<Longrightarrow> j \<le> last ids" for j :: int
  by (induction ids) (auto simp: less_imp_le)

lemma next_rowid_ok:
  assumes "rowids_ok ids"
  shows "next_rowid ids = (if ids = [] then 1 else last ids + 1)"
proof (cases ids)
  case Nil
  then show ?thesis by simp
next
  case (Cons i rest)
  from assms Cons have s: "sorted_wrt (<) (i # rest)"
    and b: "\<forall>j \<in> set (i # rest). j < 2 ^ 63 - 1"
    by (simp_all add: rowids_ok_def list_all_iff)
  have "last (i # rest) \<in> set (i # rest)" by (rule last_in_set) simp
  with b have "last (i # rest) < 2 ^ 63 - 1" by blast
  with fold_max_ascending [OF s] Cons show ?thesis by (simp add: Let_def)
qed

lemma ascending_next_rowid:
  assumes "rowids_ok ids"
  shows "sorted_wrt (<) (ids @ [next_rowid ids])"
proof -
  from assms have s: "sorted_wrt (<) ids" by (simp add: rowids_ok_def)
  then have "\<forall>j \<in> set ids. j \<le> last ids" by (simp add: ascending_le_last)
  with s next_rowid_ok [OF assms] show ?thesis
    by (auto simp: sorted_wrt_append)
qed

lemma rowids_upto_ok: "rowids_upto n ids \<Longrightarrow> int n < 2 ^ 63 - 1 \<Longrightarrow> rowids_ok ids"
  by (auto simp: rowids_upto_def rowids_ok_def list_all_iff)

lemma rowids_upto_Suc: "rowids_upto n ids \<Longrightarrow> rowids_upto (Suc n) ids"
  by (auto simp: rowids_upto_def list_all_iff)

lemma rowids_upto_next:
  assumes "rowids_upto n ids" and "int n < 2 ^ 63 - 1"
  shows "rowids_upto (Suc n) (ids @ [next_rowid ids])"
proof (cases "ids = []")
  case True
  then show ?thesis by (simp add: rowids_upto_def)
next
  case False
  from assms have ok: "rowids_ok ids" by (rule rowids_upto_ok)
  from assms(1) have b: "\<forall>j \<in> set ids. 1 \<le> j \<and> j \<le> int n"
    by (simp add: rowids_upto_def list_all_iff)
  from False have "last ids \<in> set ids" by (rule last_in_set)
  with b have "1 \<le> last ids" and "last ids \<le> int n" by blast+
  with False next_rowid_ok [OF ok]
  have "1 \<le> next_rowid ids \<and> next_rowid ids \<le> int (Suc n)" by simp
  with b ascending_next_rowid [OF ok] show ?thesis
    by (auto simp: rowids_upto_def list_all_iff)
qed









subsection \<open>HMAC\<close>




subsection \<open>The store invariant\<close>

lemma store_inv_init: "store_inv (init_db None)"
  by (simp add: store_inv_def)

lemma store_inv_signup: "store_inv s \<Longrightarrow> store_inv (snd (signup e now utcnow request s))"
  by (auto simp: store_inv_def signup_def Let_def split: option.splits)

lemma store_inv_chat: "store_inv s \<Longrightarrow> store_inv (snd (chat now now' message s))"
  by (auto simp: store_inv_def chat_def Let_def)

lemma store_inv_upload:
  "store_inv s \<Longrightarrow> store_inv (snd (upload_document now user_id filename content s))"
  by (auto simp: store_inv_def upload_document_def)

lemma store_inv_app: "store_inv s \<Longrightarrow> store_inv (snd (app e k request s))"
  by (cases "target request")
     (simp_all add: app_def split_beta store_inv_signup store_inv_chat store_inv_upload)

text \<open>Every store that a run of the application reaches from a new file is well-formed.\<close>

lemma store_inv_run: "store_inv s \<Longrightarrow> store_inv (snd (run e rqs s))"
  by (induction rqs arbitrary: s) (auto simp: split_beta store_inv_app)

lemma store_inv_reachable: "store_inv (snd (run e rqs (init_db None)))"
  by (rule store_inv_run) (rule store_inv_init)

text \<open>
  The tables of a new file hold ascending rowids, none above the number of requests made:
  as long as fewer than \<open>2^63 - 1\<close> requests were made, every table is \<open>rowids_ok\<close>.
\<close>

lemma store_rowids_app:
  assumes "store_rowids n s" and "int n < 2 ^ 63 - 1"
  shows "store_rowids (Suc n) (snd (app e k request s))"
  using assms
  by (cases "target request")
     (auto simp: store_rowids_def app_def signup_def chat_def upload_document_def Let_def
        rowids_upto_Suc rowids_upto_next split: option.splits)

lemma store_rowids_run:
  assumes "store_rowids n s" and "int (n + length rqs) < 2 ^ 63"
  shows "store_rowids (n + length rqs) (snd (run e rqs s))"
  using assms
proof (induction rqs arbitrary: n s)
  case Nil
  then show ?case by simp
next
  case (Cons rq rqs)
  obtain k request where rq: "rq = (k, request)" by (cases rq)
  from Cons.prems have "int n < 2 ^ 63 - 1" by simp
  with Cons.prems(1) have "store_rowids (Suc n) (snd (app e k request s))"
    by (rule store_rowids_app)
  moreover from Cons.prems(2) have "int (Suc n + length rqs) < 2 ^ 63" by simp
  ultimately have "store_rowids (Suc n + length rqs) (snd (run e rqs (snd (app e k request s))))"
    by (rule Cons.IH)
  then show ?case by (simp add: rq split_beta)
qed

lemma rowids_ok_reachable:
  assumes "int (length rqs) < 2 ^ 63 - 1"
  shows "rowids_ok (map users_id (users (snd (run e rqs (init_db None)))))
       \<and> rowids_ok (map messages_id (messages (snd (run e rqs (init_db None)))))
       \<and> rowids_ok (map documents_id (documents (snd (run e rqs (init_db None)))))"
proof -
  have "store_rowids 0 (init_db None)" by (simp add: store_rowids_def rowids_upto_def)
  from store_rowids_run [OF this, of rqs e] assms
  have "store_rowids (length rqs) (snd (run e rqs (init_db None)))" by simp
  with assms show ?thesis by (auto simp: store_rowids_def intro: rowids_upto_ok)
qed

lemma store_inv_example: "store_inv example_store"
  by (simp add: store_inv_def example_store_def sqlite_int_ok_def)

subsection \<open>The handlers\<close>



lemma search_Inr:
  assumes "search user_id query s = Inr r"
  shows "r = \<lparr>resp_query = query,
              resp_results =
                map (\<lambda>d. \<lparr>hit_filename = documents_filename d,
                           hit_excerpt = excerpt (documents_content d)\<rparr>)
                  (filter (\<lambda>d. documents_user_id d = user_id
                              \<and> sql_like (''%'' @ query @ ''%'') (documents_content d))
                     (documents s))\<rparr>"
  using assms by (auto simp: search_def Let_def split: if_splits)

lemma excerpt_cases:
  "prefix (excerpt c) c \<and> length (excerpt c) \<le> 200
   \<and> (if length c \<le> 200 then excerpt c = c else excerpt c = take 200 c)"
  by (simp add: excerpt_def take_is_prefix)


subsection \<open>Search\<close>

text \<open>
  Claim C1, as the specification states it: \<open>POST /api/search\<close> matches the query
  case-sensitively as a substring; a query that occurs in exactly one of the user's
  documents returns exactly that document, and a query that occurs in none returns
  nothing. The code leaves the matching to \<open>LIKE\<close>, which ignores the case of ASCII
  letters: in the sample store \<open>Hello\<close> is a substring of the first document only and
  \<open>hello\<close> of neither, yet both queries return both documents.
\<close>

theorem search_case_sensitive_counterexample:
  "sublist ''Hello'' ''Hello world'' \<and> \<not> sublist ''Hello'' ''HELLO''
   \<and> search 1 ''Hello'' example_store =
       Inr \<lparr>resp_query = ''Hello'',
            resp_results = [\<lparr>hit_filename = ''a.txt'', hit_excerpt = ''Hello world''\<rparr>,
                            \<lparr>hit_filename = ''b.txt'', hit_excerpt = ''HELLO''\<rparr>]\<rparr>
   \<and> \<not> sublist ''hello'' ''Hello world'' \<and> \<not> sublist ''hello'' ''HELLO''
   \<and> search 1 ''hello'' example_store =
       Inr \<lparr>resp_query = ''hello'',
            resp_results = [\<lparr>hit_filename = ''a.txt'', hit_excerpt = ''Hello world''\<rparr>,
                            \<lparr>hit_filename = ''b.txt'', hit_excerpt = ''HELLO''\<rparr>]\<rparr>"
  by (simp add: sublist_Cons_right search_def example_store_def sqlite_int_ok_def
      utf8_bytes_def SQLITE_MAX_LIKE_PATTERN_LENGTH_def sql_like_def c_str_def
      sqlite3Tolower_def sqlite3UpperToLower_def excerpt_def Let_def)

text \<open>
  Claim C1, amended. For a user id that SQLite can hold and a pattern \<open>%query%\<close> of at
  most 50000 bytes, the search succeeds and returns, in insertion order, exactly the
  documents of the user whose content matches the \<open>LIKE\<close> pattern \<open>%query%\<close>. For a
  query without \<open>%\<close>, \<open>_\<close> and NUL a content matches exactly when the query occurs in it
  (up to the content's first NUL) after the ASCII letters of both are lowered. So a query
  that occurs in this sense in exactly one document of the user returns exactly that
  document, and one that occurs in none returns the empty list.
\<close>

theorem search_like:
  assumes "sqlite_int_ok user_id"
    and "utf8_bytes (''%'' @ query @ ''%'') \<le> SQLITE_MAX_LIKE_PATTERN_LENGTH"
  shows "search user_id query s =
           Inr \<lparr>resp_query = query,
                resp_results =
                  map (\<lambda>d. \<lparr>hit_filename = documents_filename d,
                             hit_excerpt = excerpt (documents_content d)\<rparr>)
                    (filter (\<lambda>d. documents_user_id d = user_id
                                \<and> sql_like (''%'' @ query @ ''%'') (documents_content d))
                       (documents s))\<rparr>
       \<and> (CHR ''%'' \<notin> set query \<and> CHR ''_'' \<notin> set query \<and> CHR 0x00 \<notin> set query \<longrightarrow>
            (\<forall>content. sql_like (''%'' @ query @ ''%'') content
               = sublist (map sqlite3Tolower query) (map sqlite3Tolower (c_str content))))"
proof (intro conjI impI allI)
  from assms show "search user_id query s =
           Inr \<lparr>resp_query = query,
                resp_results =
                  map (\<lambda>d. \<lparr>hit_filename = documents_filename d,
                             hit_excerpt = excerpt (documents_content d)\<rparr>)
                    (filter (\<lambda>d. documents_user_id d = user_id
                                \<and> sql_like (''%'' @ query @ ''%'') (documents_content d))
                       (documents s))\<rparr>"
    by (simp add: search_def Let_def)
next
  fix content
  assume "CHR ''%'' \<notin> set query \<and> CHR ''_'' \<notin> set query \<and> CHR 0x00 \<notin> set query"
  then show "sql_like (''%'' @ query @ ''%'') content
               = sublist (map sqlite3Tolower query) (map sqlite3Tolower (c_str content))"
    by (intro sql_like_plain) simp_all
qed

theorem search_like_witness:
  "search 1 ''WORLD'' example_store =
     Inr \<lparr>resp_query = ''WORLD'',
          resp_results = [\<lparr>hit_filename = ''a.txt'', hit_excerpt = ''Hello world''\<rparr>]\<rparr>
   \<and> sql_like ''%WORLD%'' ''Hello world''
   \<and> \<not> sql_like ''%WORLD%'' ''HELLO''"
  using search_like [of 1 "''WORLD''" example_store]
  by (simp add: sublist_Cons_right example_store_def sqlite_int_ok_def
      utf8_bytes_def SQLITE_MAX_LIKE_PATTERN_LENGTH_def c_str_def
      sqlite3Tolower_def sqlite3UpperToLower_def excerpt_def Let_def)

text \<open>
  Claim C7: every entry of a search result is made from a document of the user; its
  excerpt is a prefix of the stored content of at most 200 characters, the whole content
  when that has at most 200 characters and its first 200 characters otherwise.
\<close>

theorem search_excerpt:
  assumes "search user_id query s = Inr r" and "h \<in> set (resp_results r)"
  shows "\<exists>d \<in> set (documents s).
           documents_user_id d = user_id
         \<and> hit_filename h = documents_filename d
         \<and> prefix (hit_excerpt h) (documents_content d)
         \<and> length (hit_excerpt h) \<le> 200
         \<and> (if length (documents_content d) \<le> 200
            then hit_excerpt h = documents_content d
            else hit_excerpt h = take 200 (documents_content d))"
proof -
  from assms obtain d where d: "d \<in> set (documents s)" "documents_user_id d = user_id"
    and h: "h = \<lparr>hit_filename = documents_filename d,
                 hit_excerpt = excerpt (documents_content d)\<rparr>"
    by (auto dest!: search_Inr)
  from h have "hit_filename h = documents_filename d"
    and "hit_excerpt h = excerpt (documents_content d)" by simp_all
  with d excerpt_cases [of "documents_content d"] show ?thesis
    by (intro bexI [of _ d]) simp_all
qed

theorem search_excerpt_witness:
  "search 1 ''world'' example_store =
     Inr \<lparr>resp_query = ''world'',
          resp_results = [\<lparr>hit_filename = ''a.txt'', hit_excerpt = ''Hello world''\<rparr>]\<rparr>
   \<and> (\<exists>d \<in> set (documents example_store).
           documents_user_id d = 1
         \<and> ''a.txt'' = documents_filename d
         \<and> prefix ''Hello world'' (documents_content d)
         \<and> length ''Hello world'' \<le> (200::nat)
         \<and> (if length (documents_content d) \<le> 200
            then ''Hello world'' = documents_content d
            else ''Hello world'' = take 200 (documents_content d)))"
proof -
  have s: "search 1 ''world'' example_store =
     Inr \<lparr>resp_query = ''world'',
          resp_results = [\<lparr>hit_filename = ''a.txt'', hit_excerpt = ''Hello world''\<rparr>]\<rparr>"
    by (simp add: search_def example_store_def sqlite_int_ok_def
        utf8_bytes_def SQLITE_MAX_LIKE_PATTERN_LENGTH_def sql_like_def c_str_def
        sqlite3Tolower_def sqlite3UpperToLower_def excerpt_def Let_def)
  from search_excerpt [OF s, of "\<lparr>hit_filename = ''a.txt'', hit_excerpt = ''Hello world''\<rparr>"]
  have "\<exists>d \<in> set (documents example_store).
           documents_user_id d = 1
         \<and> ''a.txt'' = documents_filename d
         \<and> prefix ''Hello world'' (documents_content d)
         \<and> length ''Hello world'' \<le> (200::nat)
         \<and> (if length (documents_content d) \<le> 200
            then ''Hello world'' = documents_content d
            else ''Hello world'' = take 200 (documents_content d))"
    by (simp cong: if_cong)
  with s show ?thesis by (rule conjI)
qed

text \<open>
  Claim C10: with the empty query the pattern is \<open>%%\<close>, which every content matches, so
  the search returns every document stored for the user id, each with its excerpt. This
  holds for every user id SQLite can hold; the other ids own no document in a
  well-formed store (and the call is then the 500 of the binding).
\<close>

theorem search_empty_query:
  "(sqlite_int_ok user_id \<longrightarrow>
      search user_id [] s =
        Inr \<lparr>resp_query = [],
             resp_results =
               map (\<lambda>d. \<lparr>hit_filename = documents_filename d,
                          hit_excerpt = excerpt (documents_content d)\<rparr>)
                 (filter (\<lambda>d. documents_user_id d = user_id) (documents s))\<rparr>)
   \<and> (store_inv s \<and> \<not> sqlite_int_ok user_id \<longrightarrow>
        filter (\<lambda>d. documents_user_id d = user_id) (documents s) = [])"
proof (intro conjI impI)
  assume "sqlite_int_ok user_id"
  then show "search user_id [] s =
        Inr \<lparr>resp_query = [],
             resp_results =
               map (\<lambda>d. \<lparr>hit_filename = documents_filename d,
                          hit_excerpt = excerpt (documents_content d)\<rparr>)
                 (filter (\<lambda>d. documents_user_id d = user_id) (documents s))\<rparr>"
    by (simp add: search_def Let_def SQLITE_MAX_LIKE_PATTERN_LENGTH_def utf8_bytes_def
        sql_like_def c_str_def patternCompare_percent2)
next
  assume "store_inv s \<and> \<not> sqlite_int_ok user_id"
  then show "filter (\<lambda>d. documents_user_id d = user_id) (documents s) = []"
    by (auto simp: store_inv_def list_all_iff filter_empty_conv)
qed

theorem search_empty_query_witness:
  "search 1 [] example_store =
     Inr \<lparr>resp_query = [],
          resp_results = [\<lparr>hit_filename = ''a.txt'', hit_excerpt = ''Hello world''\<rparr>,
                          \<lparr>hit_filename = ''b.txt'', hit_excerpt = ''HELLO''\<rparr>]\<rparr>
   \<and> filter (\<lambda>d. documents_user_id d = 2 ^ 63) (documents example_store) = []"
  using search_empty_query [of 1 example_store] search_empty_query [of "2 ^ 63" example_store]
    store_inv_example
  by (simp add: example_store_def sqlite_int_ok_def excerpt_def)

subsection \<open>Accounts\<close>





subsection \<open>Tokens\<close>




subsection \<open>Documents\<close>

text \<open>
  Claim C6: after a successful upload into a documents table whose rowids ascend and are
  below the largest possible one, the list of the user's documents is the list from
  before with the uploaded document at its end, so it includes it; the new document has
  the rowid after the last one, and the table is in rowid order again. An entry has an
  id, a file name and a creation time and no other field, and the list is the same
  whatever the contents of the stored documents are.
\<close>

theorem upload_then_list:
  assumes "upload_document now user_id filename content s = (Inr b, s')"
    and "rowids_ok (map documents_id (documents s))"
  shows "get_documents user_id s' =
           Inr (map (\<lambda>doc. \<lparr>view_id = documents_id doc,
                              view_filename = documents_filename doc,
                              view_doc_created_at = documents_created_at doc\<rparr>)
                   (filter (\<lambda>d. documents_user_id d = user_id) (documents s))
                @ [\<lparr>view_id = (if documents s = [] then 1
                               else documents_id (last (documents s)) + 1),
                     view_filename = filename, view_doc_created_at = now\<rparr>])
       \<and> sorted_wrt (<) (map documents_id (documents s'))
       \<and> get_documents user_id
           (s'\<lparr>documents := map (\<lambda>d. d\<lparr>documents_content := f d\<rparr>) (documents s')\<rparr>)
         = get_documents user_id s'"
proof (intro conjI)
  from assms(1) have ok: "sqlite_int_ok user_id"
    and s': "s' = s\<lparr>documents := documents s @
               [\<lparr>documents_id = next_rowid (map documents_id (documents s)),
                 documents_user_id = user_id, documents_filename = filename,
                 documents_content = content, documents_created_at = now\<rparr>]\<rparr>"
    by (auto simp: upload_document_def split: if_splits)
  from next_rowid_ok [OF assms(2)]
  have id: "next_rowid (map documents_id (documents s))
              = (if documents s = [] then 1 else documents_id (last (documents s)) + 1)"
    by (simp add: last_map)
  from ok show "get_documents user_id s' =
           Inr (map (\<lambda>doc. \<lparr>view_id = documents_id doc,
                              view_filename = documents_filename doc,
                              view_doc_created_at = documents_created_at doc\<rparr>)
                   (filter (\<lambda>d. documents_user_id d = user_id) (documents s))
                @ [\<lparr>view_id = (if documents s = [] then 1
                               else documents_id (last (documents s)) + 1),
                     view_filename = filename, view_doc_created_at = now\<rparr>])"
    by (simp add: s' get_documents_def id)
  from ascending_next_rowid [OF assms(2)]
  show "sorted_wrt (<) (map documents_id (documents s'))" by (simp add: s')
  show "get_documents user_id
           (s'\<lparr>documents := map (\<lambda>d. d\<lparr>documents_content := f d\<rparr>) (documents s')\<rparr>)
         = get_documents user_id s'"
    by (simp add: get_documents_def filter_map o_def)
qed

theorem upload_then_list_witness:
  "fst (upload_document 60 1 ''c.txt'' ''notes'' example_store) = Inr (''success'', ''c.txt'')
   \<and> rowids_ok (map documents_id (documents example_store))
   \<and> get_documents 1 (snd (upload_document 60 1 ''c.txt'' ''notes'' example_store)) =
       Inr [\<lparr>view_id = 1, view_filename = ''a.txt'', view_doc_created_at = 20\<rparr>,
            \<lparr>view_id = 2, view_filename = ''b.txt'', view_doc_created_at = 30\<rparr>,
            \<lparr>view_id = 3, view_filename = ''c.txt'', view_doc_created_at = 60\<rparr>]"
proof -
  have up: "upload_document 60 1 ''c.txt'' ''notes'' example_store
              = (Inr (''success'', ''c.txt''),
                 snd (upload_document 60 1 ''c.txt'' ''notes'' example_store))"
    by (simp add: upload_document_def sqlite_int_ok_def)
  have ok: "rowids_ok (map documents_id (documents example_store))"
    by (simp add: rowids_ok_def example_store_def)
  from upload_then_list [OF up ok, THEN conjunct1]
  have listed: "get_documents 1 (snd (upload_document 60 1 ''c.txt'' ''notes'' example_store)) =
       Inr [\<lparr>view_id = 1, view_filename = ''a.txt'', view_doc_created_at = 20\<rparr>,
            \<lparr>view_id = 2, view_filename = ''b.txt'', view_doc_created_at = 30\<rparr>,
            \<lparr>view_id = 3, view_filename = ''c.txt'', view_doc_created_at = 60\<rparr>]"
    by (simp add: example_store_def)
  have "fst (upload_document 60 1 ''c.txt'' ''notes'' example_store)
          = Inr (''success'', ''c.txt'')"
    by (simp add: upload_document_def sqlite_int_ok_def)
  with ok listed show ?thesis by (intro conjI)
qed

subsection \<open>The application as a whole\<close>

text \<open>
  Claim C8: every operation is append-only. Whatever the request, each of the three
  tables after the call is the table before the call followed by the rows the call
  added: no row that was there is changed, moved or removed.
\<close>

theorem app_append_only:
  "\<exists>us ms ds. users (snd (app e k request s)) = users s @ us
     \<and> messages (snd (app e k request s)) = messages s @ ms
     \<and> documents (snd (app e k request s)) = documents s @ ds"
  by (cases "target request")
     (auto simp: app_def signup_def chat_def upload_document_def Let_def split: option.splits)



subsection \<open>Messages\<close>




end
